theory Spec2Isabelle
  imports Main "HOL-Library.Sublist" "HOL-Library.List_Lexorder" "HOL-Library.Char_ord"
begin

section \<open>JavaScript strings and numbers\<close>

text \<open>
  Strings are \<^typ>\<open>string\<close>. \<open>s.includes(t)\<close> is the contiguous-sublist test,
  \<open>xs.join(sep)\<close> puts \<open>sep\<close> between the elements, and \<open>trim\<close> strips the ASCII
  white space of both ends. \<open>String.prototype.toLowerCase\<close> folds every cased letter
  of Unicode; the functions that call it take it as their first argument,
  \<open>toLowerCase\<close>. \<open>ascii_toLowerCase\<close> is the lower-casing of text whose letters are
  ASCII (\<open>A\<close>..\<open>Z\<close> become \<open>a\<close>..\<open>z\<close>, every other character is kept); the examples
  use it.
\<close>

definition ascii_toLowerCase_char :: "char \<Rightarrow> char" where
  "ascii_toLowerCase_char c =
     (let n = (of_char c :: nat) in if 65 \<le> n \<and> n \<le> 90 then char_of (n + 32) else c)"

definition ascii_toLowerCase :: "string \<Rightarrow> string" where
  "ascii_toLowerCase s = map ascii_toLowerCase_char s"

definition includes_str :: "string \<Rightarrow> string \<Rightarrow> bool" where
  "includes_str s t = sublist t s"

fun join :: "string \<Rightarrow> string list \<Rightarrow> string" where
  "join sep [] = []"
| "join sep [x] = x"
| "join sep (x # y # ys) = x @ sep @ join sep (y # ys)"

definition isWhiteSpace :: "char \<Rightarrow> bool" where
  "isWhiteSpace c = (c \<in> set [CHR '' '', CHR 0x09, CHR 0x0A, CHR 0x0B, CHR 0x0C, CHR 0x0D])"

definition trim :: "string \<Rightarrow> string" where
  "trim s = dropWhile isWhiteSpace (rev (dropWhile isWhiteSpace (rev s)))"

text \<open>The decimal digits of a non-negative integer, as a template literal prints it.\<close>

definition digit :: "int \<Rightarrow> char" where
  "digit d = char_of (48 + d)"

function digits :: "int \<Rightarrow> string" where
  "digits n = (if n < 10 then [digit n] else digits (n div 10) @ [digit (n mod 10)])"
  by pat_completeness auto
termination
  by (relation "measure nat") auto

declare digits.simps [simp del]

text \<open>
  A JavaScript number, as far as the catalog uses one: an integer or \<open>NaN\<close>. The time
  values of \<open>Date\<close> are integers of at most \<open>8.64e15\<close> in absolute value. While the
  difference of two of them is below \<open>2 ^ 53\<close> in absolute value, that difference, its
  quotient by the \<open>86400000\<close> milliseconds of a day and the rounding up of that quotient
  are exact in double precision, and the model computes them on \<^typ>\<open>int\<close>. Beyond
  \<open>2 ^ 53\<close> (a clock and a date some 285000 years apart) the doubles of the code round
  and the integers of the model do not: the model is not the code there. Every
  arithmetic operation on \<open>NaN\<close> gives \<open>NaN\<close>, and every comparison with \<open>NaN\<close> is false.
\<close>

datatype number = NaN | Num int

fun minus_number :: "number \<Rightarrow> number \<Rightarrow> number" where
  "minus_number (Num a) (Num b) = Num (a - b)"
| "minus_number _ _ = NaN"

fun Math_abs :: "number \<Rightarrow> number" where
  "Math_abs (Num a) = Num \<bar>a\<bar>"
| "Math_abs NaN = NaN"

text \<open>\<open>Math.ceil(x / k)\<close> for a positive integer constant \<open>k\<close>.\<close>

fun Math_ceil_div :: "number \<Rightarrow> int \<Rightarrow> number" where
  "Math_ceil_div (Num a) k = Num (- ((- a) div k))"
| "Math_ceil_div NaN k = NaN"

fun strict_eq :: "number \<Rightarrow> number \<Rightarrow> bool" where
  "strict_eq (Num a) (Num b) = (a = b)"
| "strict_eq _ _ = False"

fun less_number :: "number \<Rightarrow> number \<Rightarrow> bool" where
  "less_number (Num a) (Num b) = (a < b)"
| "less_number _ _ = False"

fun toString :: "number \<Rightarrow> string" where
  "toString NaN = ''NaN''"
| "toString (Num a) =
     (if a < 0 then ''-'' @ digits (- a) else digits a)"

section \<open>The data model of \<open>jobStorageService.ts\<close>\<close>

datatype Source = api | admin

text \<open>
  The interface \<open>Job\<close>. The field \<open>id\<close> is named \<open>job_id\<close>; \<open>application_link\<close> is
  optional in the source.
\<close>

record Job =
  job_id :: string
  title :: string
  company :: string
  location :: string
  type :: string
  experience :: string
  salary :: string
  description :: string
  requirements :: "string list"
  posted :: string
  url :: string
  logo :: string
  remote :: bool
  skills :: "string list"
  application_link :: "string option"
  created_at :: string
  updated_at :: string
  source :: Source

text \<open>The interface \<open>JobFilters\<close>: every key is optional.\<close>

record JobFilters =
  f_location :: "string option"
  f_type :: "string option"
  f_experience :: "string option"
  f_remote :: "bool option"
  f_skills :: "string list option"

text \<open>
  The argument of \<open>addJob\<close>, of type \<open>Omit<Job, 'id' | 'created_at' | 'updated_at' | 'source'>\<close>.
\<close>

record JobData =
  d_title :: string
  d_company :: string
  d_location :: string
  d_type :: string
  d_experience :: string
  d_salary :: string
  d_description :: string
  d_requirements :: "string list"
  d_posted :: string
  d_url :: string
  d_logo :: string
  d_remote :: bool
  d_skills :: "string list"
  d_application_link :: "string option"

text \<open>
  The argument of \<open>updateJob\<close>, of type \<open>Partial<Job>\<close>: \<open>None\<close> is a key that the
  object does not have, \<open>Some v\<close> a key it has with value \<open>v\<close>.
\<close>

record JobUpdates =
  u_id :: "string option"
  u_title :: "string option"
  u_company :: "string option"
  u_location :: "string option"
  u_type :: "string option"
  u_experience :: "string option"
  u_salary :: "string option"
  u_description :: "string option"
  u_requirements :: "string list option"
  u_posted :: "string option"
  u_url :: "string option"
  u_logo :: "string option"
  u_remote :: "bool option"
  u_skills :: "string list option"
  u_application_link :: "string option option"
  u_created_at :: "string option"
  u_updated_at :: "string option"
  u_source :: "Source option"

definition no_updates :: JobUpdates where
  "no_updates =
     \<lparr>u_id = None, u_title = None, u_company = None, u_location = None, u_type = None,
      u_experience = None, u_salary = None, u_description = None, u_requirements = None,
      u_posted = None, u_url = None, u_logo = None, u_remote = None, u_skills = None,
      u_application_link = None, u_created_at = None, u_updated_at = None,
      u_source = None\<rparr>"

text \<open>
  An element of the \<open>any[]\<close> that \<open>normalizeAPIJobs\<close> reads. The keys are the ones the
  function looks at; \<open>None\<close> is a key that is missing (or \<open>null\<close>), and a key that is
  there holds a value of the type of the \<open>Job\<close> field it is copied to.
\<close>

record Payload =
  p_id :: "string option"
  p_title :: "string option"
  p_company :: "string option"
  p_location :: "string option"
  p_job_type :: "string option"
  p_type :: "string option"
  p_experience :: "string option"
  p_experience_level :: "string option"
  p_salary :: "string option"
  p_salary_range :: "string option"
  p_description :: "string option"
  p_requirements :: "string list option"
  p_skills :: "string list option"
  p_created_at :: "string option"
  p_application_link :: "string option"
  p_url :: "string option"
  p_logo :: "string option"
  p_company_logo :: "string option"
  p_remote :: "bool option"
  p_is_remote :: "bool option"

definition empty_payload :: Payload where
  "empty_payload =
     \<lparr>p_id = None, p_title = None, p_company = None, p_location = None, p_job_type = None,
      p_type = None, p_experience = None, p_experience_level = None, p_salary = None,
      p_salary_range = None, p_description = None, p_requirements = None, p_skills = None,
      p_created_at = None, p_application_link = None, p_url = None, p_logo = None,
      p_company_logo = None, p_remote = None, p_is_remote = None\<rparr>"

text \<open>
  What one call reads from the JavaScript runtime: the clock (\<open>Date.now()\<close> in
  milliseconds and \<open>new Date().toISOString()\<close>), the time value of \<open>new Date(s)\<close> for a
  string \<open>s\<close> (\<open>NaN\<close> for a string that is no date: the constructor does not throw), and
  the text of \<open>Math.random().toString(36)\<close>. A call that reads the clock several times
  gets this one reading each time.
\<close>

record env =
  Date_now :: int
  Date_toISOString :: string
  Date_getTime :: "string \<Rightarrow> number"
  Math_random36 :: string

text \<open>
  \<open>localStorage\<close> maps a key to a string. The string written under \<open>STORAGE_KEY\<close> is
  \<open>JSON.stringify(this.jobs)\<close>, kept here as the list it encodes. \<open>setItem\<close> is taken to
  succeed, so the \<open>catch\<close> of \<open>saveToStorage\<close>, which only logs, has no branch.
\<close>

datatype stored = JobsJSON "Job list" | Text string

type_synonym storage = "string \<Rightarrow> stored option"

definition STORAGE_KEY :: string where
  "STORAGE_KEY = ''careerpanda_jobs''"

definition ADMIN_SESSION_KEY :: string where
  "ADMIN_SESSION_KEY = ''careerpanda_admin_session''"

definition ADMIN_PASSCODE :: string where
  "ADMIN_PASSCODE = ''723899''"

text \<open>The singleton's \<open>jobs\<close> array together with the browser's \<open>localStorage\<close>.\<close>

record world =
  jobs :: "Job list"
  localStorage :: storage

section \<open>\<open>JobStorageService\<close>\<close>

definition saveToStorage :: "world \<Rightarrow> world" where
  "saveToStorage w = w\<lparr>localStorage := (localStorage w)(STORAGE_KEY \<mapsto> JobsJSON (jobs w))\<rparr>"

definition getAllJobs :: "world \<Rightarrow> Job list" where
  "getAllJobs w = jobs w"

subsection \<open>\<open>getFilteredJobs\<close>\<close>

definition searchableText :: "(string \<Rightarrow> string) \<Rightarrow> Job \<Rightarrow> string" where
  "searchableText toLowerCase job =
     toLowerCase (title job @ '' '' @ company job @ '' '' @ description job @ '' '' @
       join '' '' (skills job))"

definition getFilteredJobs ::
  "(string \<Rightarrow> string) \<Rightarrow> string \<Rightarrow> JobFilters \<Rightarrow> world \<Rightarrow> Job list" where
  "getFilteredJobs toLowerCase query filters w =
     (let filteredJobs = jobs w;
          filteredJobs =
            (if query \<noteq> [] then
               filter (\<lambda>job.
                 includes_str (searchableText toLowerCase job) (toLowerCase query))
                 filteredJobs
             else filteredJobs);
          filteredJobs =
            (case f_location filters of
               Some l \<Rightarrow>
                 if l \<noteq> [] then
                   filter (\<lambda>job. includes_str (toLowerCase (location job)) (toLowerCase l))
                     filteredJobs
                 else filteredJobs
             | None \<Rightarrow> filteredJobs);
          filteredJobs =
            (case f_type filters of
               Some t \<Rightarrow>
                 if t \<noteq> [] then filter (\<lambda>job. type job = t) filteredJobs else filteredJobs
             | None \<Rightarrow> filteredJobs);
          filteredJobs =
            (case f_experience filters of
               Some x \<Rightarrow>
                 if x \<noteq> [] then
                   filter (\<lambda>job. includes_str (toLowerCase (experience job)) (toLowerCase x))
                     filteredJobs
                 else filteredJobs
             | None \<Rightarrow> filteredJobs);
          filteredJobs =
            (case f_remote filters of
               Some r \<Rightarrow> filter (\<lambda>job. remote job = r) filteredJobs
             | None \<Rightarrow> filteredJobs);
          filteredJobs =
            (case f_skills filters of
               Some ss \<Rightarrow>
                 if length ss > 0 then
                   filter (\<lambda>job.
                     list_ex (\<lambda>skill.
                       list_ex (\<lambda>jobSkill.
                         includes_str (toLowerCase jobSkill) (toLowerCase skill)) (skills job)) ss)
                     filteredJobs
                 else filteredJobs
             | None \<Rightarrow> filteredJobs)
      in filteredJobs)"

subsection \<open>\<open>normalizeAPIJobs\<close> and \<open>formatDate\<close>\<close>

text \<open>
  No operation in the \<open>try\<close> block of \<open>formatDate\<close> throws (an invalid date has the time
  value \<open>NaN\<close>), so its \<open>catch\<close> is never entered and the model has no branch for it.
\<close>

definition formatDate :: "env \<Rightarrow> string \<Rightarrow> string" where
  "formatDate e dateString =
     (let date = Date_getTime e dateString;
          now = Num (Date_now e);
          diffTime = Math_abs (minus_number now date);
          diffDays = Math_ceil_div diffTime (1000 * 60 * 60 * 24)
      in if strict_eq diffDays (Num 1) then ''1 day ago''
         else if less_number diffDays (Num 7) then toString diffDays @ '' days ago''
         else if less_number diffDays (Num 30) then
           toString (Math_ceil_div diffDays 7) @ '' weeks ago''
         else toString (Math_ceil_div diffDays 30) @ '' months ago'')"

text \<open>
  \<open>a || d\<close> on an optional string (the empty string is falsy), on an optional array
  (every array is truthy) and on an optional boolean.
\<close>

definition str_or :: "string option \<Rightarrow> string \<Rightarrow> string" where
  "str_or a d = (case a of Some s \<Rightarrow> if s \<noteq> [] then s else d | None \<Rightarrow> d)"

definition list_or :: "string list option \<Rightarrow> string list \<Rightarrow> string list" where
  "list_or a d = (case a of Some xs \<Rightarrow> xs | None \<Rightarrow> d)"

definition bool_or :: "bool option \<Rightarrow> bool \<Rightarrow> bool" where
  "bool_or a d = (case a of Some b \<Rightarrow> if b then True else d | None \<Rightarrow> d)"

definition normalizeJob :: "env \<Rightarrow> nat \<Rightarrow> Payload \<Rightarrow> Job" where
  "normalizeJob e index job =
     \<lparr>job_id = str_or (p_id job) (''api_job_'' @ toString (Num (Date_now e)) @ ''_'' @
         toString (Num (int index))),
      title = str_or (p_title job) ''Job Position'',
      company = str_or (p_company job) ''Company'',
      location = str_or (p_location job) ''Location'',
      type = str_or (p_job_type job) (str_or (p_type job) ''full-time''),
      experience = str_or (p_experience job) (str_or (p_experience_level job) ''Not specified''),
      salary = str_or (p_salary job) (str_or (p_salary_range job) ''Competitive''),
      description = str_or (p_description job) ''No description available'',
      requirements = list_or (p_requirements job) (list_or (p_skills job) []),
      posted =
        (case p_created_at job of
           Some c \<Rightarrow> if c \<noteq> [] then formatDate e c else ''Recently''
         | None \<Rightarrow> ''Recently''),
      url = str_or (p_application_link job) (str_or (p_url job) ''#''),
      logo = str_or (p_logo job) (str_or (p_company_logo job) ''''),
      remote = bool_or (p_remote job) (bool_or (p_is_remote job) False),
      skills = list_or (p_skills job) (list_or (p_requirements job) []),
      application_link = p_application_link job,
      created_at = str_or (p_created_at job) (Date_toISOString e),
      updated_at = Date_toISOString e,
      source = api\<rparr>"

definition normalizeAPIJobs :: "env \<Rightarrow> Payload list \<Rightarrow> Job list" where
  "normalizeAPIJobs e apiJobs = map (\<lambda>(index, job). normalizeJob e index job) (enumerate 0 apiJobs)"

subsection \<open>\<open>syncJobsFromAPI\<close>, \<open>addJob\<close>, \<open>updateJob\<close>\<close>

definition syncJobsFromAPI :: "env \<Rightarrow> Payload list \<Rightarrow> world \<Rightarrow> world" where
  "syncJobsFromAPI e apiJobs w =
     (let normalizedJobs = normalizeAPIJobs e apiJobs;
          w1 = w\<lparr>jobs := filter (\<lambda>job. source job = admin) (jobs w)\<rparr>;
          w2 = w1\<lparr>jobs := jobs w1 @ normalizedJobs\<rparr>
      in saveToStorage w2)"

text \<open>\<open>substr(2, 9)\<close> keeps at most nine characters from position two on.\<close>

definition generateId :: "env \<Rightarrow> string" where
  "generateId e =
     ''job_'' @ toString (Num (Date_now e)) @ ''_'' @ take 9 (drop 2 (Math_random36 e))"

definition addJob :: "env \<Rightarrow> JobData \<Rightarrow> world \<Rightarrow> Job \<times> world" where
  "addJob e jobData w =
     (let newJob =
            \<lparr>job_id = generateId e,
             title = d_title jobData,
             company = d_company jobData,
             location = d_location jobData,
             type = d_type jobData,
             experience = d_experience jobData,
             salary = d_salary jobData,
             description = d_description jobData,
             requirements = d_requirements jobData,
             posted = d_posted jobData,
             url = d_url jobData,
             logo = d_logo jobData,
             remote = d_remote jobData,
             skills = d_skills jobData,
             application_link = d_application_link jobData,
             created_at = Date_toISOString e,
             updated_at = Date_toISOString e,
             source = admin\<rparr>
      in (newJob, saveToStorage (w\<lparr>jobs := newJob # jobs w\<rparr>)))"

text \<open>\<open>findIndex\<close>: the first position whose element satisfies the test, if any.\<close>

fun findIndex :: "('a \<Rightarrow> bool) \<Rightarrow> 'a list \<Rightarrow> nat option" where
  "findIndex P [] = None"
| "findIndex P (x # xs) =
     (if P x then Some 0 else (case findIndex P xs of None \<Rightarrow> None | Some i \<Rightarrow> Some (Suc i)))"

text \<open>The object spread \<open>{...job, ...updates}\<close>: a key of \<open>updates\<close> wins.\<close>

definition override :: "'a option \<Rightarrow> 'a \<Rightarrow> 'a" where
  "override new old = (case new of Some v \<Rightarrow> v | None \<Rightarrow> old)"

definition spread :: "Job \<Rightarrow> JobUpdates \<Rightarrow> Job" where
  "spread job updates =
     \<lparr>job_id = override (u_id updates) (job_id job),
      title = override (u_title updates) (title job),
      company = override (u_company updates) (company job),
      location = override (u_location updates) (location job),
      type = override (u_type updates) (type job),
      experience = override (u_experience updates) (experience job),
      salary = override (u_salary updates) (salary job),
      description = override (u_description updates) (description job),
      requirements = override (u_requirements updates) (requirements job),
      posted = override (u_posted updates) (posted job),
      url = override (u_url updates) (url job),
      logo = override (u_logo updates) (logo job),
      remote = override (u_remote updates) (remote job),
      skills = override (u_skills updates) (skills job),
      application_link = override (u_application_link updates) (application_link job),
      created_at = override (u_created_at updates) (created_at job),
      updated_at = override (u_updated_at updates) (updated_at job),
      source = override (u_source updates) (source job)\<rparr>"

definition updateJob :: "env \<Rightarrow> string \<Rightarrow> JobUpdates \<Rightarrow> world \<Rightarrow> Job option \<times> world" where
  "updateJob e i updates w =
     (case findIndex (\<lambda>job. job_id job = i) (jobs w) of
        None \<Rightarrow> (None, w)
      | Some index \<Rightarrow>
          (let job' = (spread (jobs w ! index) updates)\<lparr>updated_at := Date_toISOString e\<rparr>;
               w' = saveToStorage (w\<lparr>jobs := (jobs w)[index := job']\<rparr>)
           in (Some (jobs w' ! index), w')))"

subsection \<open>The admin session\<close>

definition authenticateAdmin :: "string \<Rightarrow> storage \<Rightarrow> bool \<times> storage" where
  "authenticateAdmin passcode ls =
     (if passcode = ADMIN_PASSCODE then (True, ls(ADMIN_SESSION_KEY \<mapsto> Text ''true''))
      else (False, ls))"

definition isAdminAuthenticated :: "storage \<Rightarrow> bool" where
  "isAdminAuthenticated ls = (ls ADMIN_SESSION_KEY = Some (Text ''true''))"

definition logoutAdmin :: "storage \<Rightarrow> storage" where
  "logoutAdmin ls = ls(ADMIN_SESSION_KEY := None)"

section \<open>\<open>searchJobs\<close> of \<open>jobService.ts\<close>\<close>

text \<open>
  What \<open>fetch\<close> and \<open>response.json()\<close> give: the request is rejected (a network error),
  or there is a response with its \<open>ok\<close> flag and a body that is valid JSON or not. A JSON
  value is an array of payloads, an object with optional arrays under \<open>jobs\<close> and \<open>data\<close>,
  \<open>null\<close>, or a number, string or boolean.
\<close>

datatype api_data =
  DataArray "Payload list"
| DataObject "Payload list option" "Payload list option"
| DataNull
| DataScalar

datatype response_body = InvalidJSON | ValidJSON api_data

datatype fetch_outcome = Rejected | Response bool response_body

datatype error = FetchFailed | APIError | SyntaxError | TypeError

text \<open>
  \<open>Array.isArray(data) ? data : (data.jobs || data.data || [])\<close>; reading a property of
  \<open>null\<close> throws.
\<close>

fun apiJobs_of :: "api_data \<Rightarrow> error + Payload list" where
  "apiJobs_of (DataArray xs) = Inr xs"
| "apiJobs_of (DataObject j d) =
     Inr (case j of Some xs \<Rightarrow> xs | None \<Rightarrow> (case d of Some ys \<Rightarrow> ys | None \<Rightarrow> []))"
| "apiJobs_of DataNull = Inl TypeError"
| "apiJobs_of DataScalar = Inr []"

text \<open>The \<open>try\<close> block up to and including the call of \<open>syncJobsFromAPI\<close>.\<close>

definition fetch_and_sync :: "env \<Rightarrow> fetch_outcome \<Rightarrow> world \<Rightarrow> error + world" where
  "fetch_and_sync e fetched w =
     (case fetched of
        Rejected \<Rightarrow> Inl FetchFailed
      | Response ok body \<Rightarrow>
          if \<not> ok then Inl APIError
          else (case body of
                  InvalidJSON \<Rightarrow> Inl SyntaxError
                | ValidJSON data \<Rightarrow>
                    (case apiJobs_of data of
                       Inl err \<Rightarrow> Inl err
                     | Inr apiJobs \<Rightarrow> Inr (syncJobsFromAPI e apiJobs w))))"

definition searchJobs ::
  "(string \<Rightarrow> string) \<Rightarrow> env \<Rightarrow> fetch_outcome \<Rightarrow> string \<Rightarrow> JobFilters \<Rightarrow> bool \<Rightarrow> world \<Rightarrow>
     Job list \<times> world" where
  "searchJobs toLowerCase e fetched query filters forceAPI w =
     (if \<not> forceAPI then (getFilteredJobs toLowerCase query filters w, w)
      else (case fetch_and_sync e fetched w of
              Inr w' \<Rightarrow> (getFilteredJobs toLowerCase query filters w', w')
            | Inl err \<Rightarrow> (getFilteredJobs toLowerCase query filters w, w)))"

section \<open>\<open>filterJobs\<close> of the admin job manager\<close>


section \<open>The specification's vocabulary and sample data\<close>

text \<open>
  "The term appears in the string, case-insensitively, as a substring": both sides are
  put in lower case and the term is looked for in the string.
\<close>

definition appears_in :: "(string \<Rightarrow> string) \<Rightarrow> string \<Rightarrow> string \<Rightarrow> bool" where
  "appears_in toLowerCase t s = includes_str (toLowerCase s) (toLowerCase t)"

text \<open>
  What the lower-casing of the runtime does around spaces: the empty string stays empty,
  a space stays a space and the parts on its two sides are lower-cased each by itself
  (no rule of Unicode's lower-casing looks across a space), a string that is not empty
  stays so, and no space appears where there was none.
\<close>

definition respects_spaces :: "(string \<Rightarrow> string) \<Rightarrow> bool" where
  "respects_spaces lc \<longleftrightarrow>
     lc [] = [] \<and>
     (\<forall>a b. lc (a @ CHR '' '' # b) = lc a @ CHR '' '' # lc b) \<and>
     (\<forall>s. s \<noteq> [] \<longrightarrow> lc s \<noteq> []) \<and>
     (\<forall>s. CHR '' '' \<notin> set s \<longrightarrow> CHR '' '' \<notin> set (lc s))"


definition only_remote :: "bool \<Rightarrow> JobFilters" where
  "only_remote r =
     \<lparr>f_location = None, f_type = None, f_experience = None, f_remote = Some r,
      f_skills = None\<rparr>"

text \<open>A catalog of one record made by the admin and one record from the API.\<close>

definition sample_job :: Job where
  "sample_job =
     \<lparr>job_id = ''job_1'', title = ''Frontend Developer'', company = ''Acme'',
      location = ''Pune'', type = ''full-time'', experience = ''2 years'',
      salary = ''10 LPA'', description = ''Build user interfaces'',
      requirements = [''React''], posted = ''Just now'', url = ''#'', logo = '''',
      remote = True, skills = [''React'', ''TypeScript''], application_link = None,
      created_at = ''2024-01-01T00:00:00.000Z'', updated_at = ''2024-01-01T00:00:00.000Z'',
      source = admin\<rparr>"

definition sample_api_job :: Job where
  "sample_api_job =
     \<lparr>job_id = ''api_1'', title = ''Backend Engineer'', company = ''Globex'',
      location = ''Remote'', type = ''contract'', experience = ''5 years'',
      salary = ''Competitive'', description = ''Services in Go'',
      requirements = [''Go''], posted = ''2 days ago'', url = ''#'', logo = '''',
      remote = False, skills = [''Go'', ''reactive streams''], application_link = None,
      created_at = ''2023-12-30T00:00:00.000Z'', updated_at = ''2023-12-31T00:00:00.000Z'',
      source = api\<rparr>"

definition sample_world :: world where
  "sample_world = \<lparr>jobs = [sample_job, sample_api_job], localStorage = Map.empty\<rparr>"

text \<open>
  "A sequence of non-empty, trimmed strings": no entry is empty and trimming an entry
  does not change it.
\<close>

definition clean_entries :: "string list \<Rightarrow> bool" where
  "clean_entries xs = list_all (\<lambda>s. s \<noteq> [] \<and> trim s = s) xs"

text \<open>
  One reading of the runtime: the clock stands at 2024-01-01T00:00:00.000Z, and
  \<open>sample_getTime\<close> gives the time values of the three date strings the examples use
  (2, 10 and 45 days before the clock) and \<open>NaN\<close> elsewhere; the only other string the
  examples pass to it is \<open>not a date\<close>.
\<close>

definition sample_getTime :: "string \<Rightarrow> number" where
  "sample_getTime s =
     (if s = ''2023-12-30T00:00:00.000Z'' then Num 1703894400000
      else if s = ''2023-12-22T00:00:00.000Z'' then Num 1703203200000
      else if s = ''2023-11-17T00:00:00.000Z'' then Num 1700179200000
      else NaN)"

definition sample_env :: env where
  "sample_env =
     \<lparr>Date_now = 1704067200000, Date_toISOString = ''2024-01-01T00:00:00.000Z'',
      Date_getTime = sample_getTime, Math_random36 = ''0.4fzyo82mvyr''\<rparr>"

text \<open>A payload whose skills hold an empty entry and an entry with spaces around it.\<close>

definition untidy_payload :: Payload where
  "untidy_payload = empty_payload\<lparr>p_id := Some ''api_7'', p_skills := Some ['''', '' React '']\<rparr>"

text \<open>
  A sequence of \<open>addJob\<close> calls, each with its own reading of the runtime, and the
  condition that every call generates an id that the catalog does not hold yet.
\<close>

fun addJobs :: "(env \<times> JobData) list \<Rightarrow> world \<Rightarrow> world" where
  "addJobs [] w = w"
| "addJobs ((e, jobData) # calls) w = addJobs calls (snd (addJob e jobData w))"

fun fresh_ids :: "(env \<times> JobData) list \<Rightarrow> world \<Rightarrow> bool" where
  "fresh_ids [] w = True"
| "fresh_ids ((e, jobData) # calls) w =
     (generateId e \<notin> set (map job_id (jobs w)) \<and> fresh_ids calls (snd (addJob e jobData w)))"

text \<open>
  The fields of a new job, a second reading one millisecond later, and a reading whose
  clock stands before the sample records' time stamps.
\<close>

definition sample_data :: JobData where
  "sample_data =
     \<lparr>d_title = ''Data Analyst'', d_company = ''Initech'', d_location = ''Delhi'',
      d_type = ''full-time'', d_experience = ''1 year'', d_salary = ''8 LPA'',
      d_description = ''Reports and dashboards'', d_requirements = [''SQL''],
      d_posted = ''Just now'', d_url = ''#'', d_logo = '''', d_remote = False,
      d_skills = [''SQL'', ''Excel''], d_application_link = None\<rparr>"

definition later_env :: env where
  "later_env = sample_env\<lparr>Date_now := 1704067200001\<rparr>"

definition earlier_env :: env where
  "earlier_env = sample_env\<lparr>Date_toISOString := ''2023-06-01T00:00:00.000Z''\<rparr>"

text \<open>
  Arguments of \<open>updateJob\<close>: \<open>{title: "X"}\<close>, an object that names \<open>created_at\<close> and
  \<open>source\<close>, and one that names \<open>id\<close>, \<open>updated_at\<close> and \<open>source\<close>.
\<close>

definition retitle :: JobUpdates where
  "retitle = no_updates\<lparr>u_title := Some ''X''\<rparr>"

definition relabel :: JobUpdates where
  "relabel = no_updates\<lparr>u_created_at := Some ''2020-02-02T00:00:00.000Z'', u_source := Some api\<rparr>"

definition reidentify :: JobUpdates where
  "reidentify =
     no_updates\<lparr>u_id := Some ''api_1'', u_updated_at := Some ''1999-12-31T00:00:00.000Z'',
       u_source := Some api\<rparr>"

text \<open>An argument of \<open>updateJob\<close> that names every key, and the record it makes.\<close>

definition overwrite :: JobUpdates where
  "overwrite =
     \<lparr>u_id = Some ''api_1'', u_title = Some ''T'', u_company = Some ''C'',
      u_location = Some ''L'', u_type = Some ''contract'', u_experience = Some ''E'',
      u_salary = Some ''S'', u_description = Some ''D'', u_requirements = Some [''R''],
      u_posted = Some ''P'', u_url = Some ''U'', u_logo = Some ''G'', u_remote = Some False,
      u_skills = Some [''K''], u_application_link = Some (Some ''A''),
      u_created_at = Some ''1999-12-31T00:00:00.000Z'',
      u_updated_at = Some ''1999-12-31T00:00:00.000Z'', u_source = Some api\<rparr>"

definition overwritten :: Job where
  "overwritten =
     \<lparr>job_id = ''api_1'', title = ''T'', company = ''C'', location = ''L'',
      type = ''contract'', experience = ''E'', salary = ''S'', description = ''D'',
      requirements = [''R''], posted = ''P'', url = ''U'', logo = ''G'', remote = False,
      skills = [''K''], application_link = Some ''A'',
      created_at = ''1999-12-31T00:00:00.000Z'', updated_at = ''2024-01-01T00:00:00.000Z'',
      source = api\<rparr>"

text \<open>
  What \<open>generateId\<close> reads: the clock and the nine characters of the random text that
  \<open>substr(2, 9)\<close> keeps. \<open>decimal_value\<close> reads a string of decimal digits back.
\<close>

definition id_reading :: "env \<Rightarrow> int \<times> string" where
  "id_reading e = (Date_now e, take 9 (drop 2 (Math_random36 e)))"

definition decimal_value :: "string \<Rightarrow> int" where
  "decimal_value s = foldl (\<lambda>a c. 10 * a + (of_char c - 48)) 0 s"

text \<open>
  Two more readings at the clock of \<open>sample_env\<close>: one whose random text differs from
  that of \<open>sample_env\<close> within the nine characters kept, one whose random text differs
  only after them.
\<close>

definition other_draw_env :: env where
  "other_draw_env = sample_env\<lparr>Math_random36 := ''0.x1''\<rparr>"

definition truncated_env :: env where
  "truncated_env = sample_env\<lparr>Math_random36 := ''0.4fzyo82mvyq''\<rparr>"

text \<open>
  A catalog in which two records have the id \<open>api_1\<close>, and the first of them after an
  update of its title at the clock of \<open>sample_env\<close>.
\<close>

definition second_copy :: Job where
  "second_copy = sample_api_job\<lparr>title := ''Second''\<rparr>"

definition retitled :: Job where
  "retitled = sample_api_job\<lparr>title := ''X'', updated_at := ''2024-01-01T00:00:00.000Z''\<rparr>"

definition dup_world :: world where
  "dup_world =
     \<lparr>jobs = [sample_job, sample_api_job, second_copy], localStorage = Map.empty\<rparr>"

section \<open>The admin session: authenticate, check, log out\<close>

text \<open>
  C8. From any content of the storage, authenticating with the configured passcode
  returns true and a following \<open>isAdminAuthenticated\<close> is true; after a following
  \<open>logoutAdmin\<close> it is false; and authenticating with any other passcode returns false
  and gives back the storage it was given, so the session flag is as it was.
\<close>

theorem auth_round_trip:
  "fst (authenticateAdmin ADMIN_PASSCODE ls) = True \<and>
   isAdminAuthenticated (snd (authenticateAdmin ADMIN_PASSCODE ls)) = True \<and>
   isAdminAuthenticated (logoutAdmin (snd (authenticateAdmin ADMIN_PASSCODE ls))) = False \<and>
   (wrong \<noteq> ADMIN_PASSCODE \<longrightarrow>
      authenticateAdmin wrong ls = (False, ls) \<and>
      isAdminAuthenticated (snd (authenticateAdmin wrong ls)) = isAdminAuthenticated ls)"
  by (simp add: authenticateAdmin_def isAdminAuthenticated_def logoutAdmin_def)

theorem auth_round_trip_witness:
  "''000000'' \<noteq> ADMIN_PASSCODE \<and>
   fst (authenticateAdmin ADMIN_PASSCODE Map.empty) = True \<and>
   isAdminAuthenticated (snd (authenticateAdmin ADMIN_PASSCODE Map.empty)) = True \<and>
   isAdminAuthenticated (logoutAdmin (snd (authenticateAdmin ADMIN_PASSCODE Map.empty))) = False \<and>
   authenticateAdmin ''000000'' Map.empty = (False, Map.empty) \<and>
   isAdminAuthenticated (snd (authenticateAdmin ''000000'' Map.empty)) = False"
proof -
  have h: "''000000'' \<noteq> ADMIN_PASSCODE"
    by (simp add: ADMIN_PASSCODE_def)
  have e: "isAdminAuthenticated Map.empty = False"
    by (simp add: isAdminAuthenticated_def)
  show ?thesis
    using h e auth_round_trip [of Map.empty "''000000''"] by simp
qed

section \<open>The free-text query and the filters\<close>

subsection \<open>Lower case and substrings\<close>

lemma ascii_toLowerCase_append:
  "ascii_toLowerCase (a @ b) = ascii_toLowerCase a @ ascii_toLowerCase b"
  by (simp add: ascii_toLowerCase_def)

lemma ascii_toLowerCase_Nil: "ascii_toLowerCase [] = []"
  by (simp add: ascii_toLowerCase_def)

lemma ascii_toLowerCase_Cons:
  "ascii_toLowerCase (c # s) = ascii_toLowerCase_char c # ascii_toLowerCase s"
  by (simp add: ascii_toLowerCase_def)

lemma ascii_toLowerCase_char_space_id: "ascii_toLowerCase_char CHR '' '' = CHR '' ''"
  by (simp add: ascii_toLowerCase_char_def)

lemma ascii_toLowerCase_nonempty: "ascii_toLowerCase q = [] \<longleftrightarrow> q = []"
  by (simp add: ascii_toLowerCase_def)

lemma ascii_toLowerCase_char_space:
  "ascii_toLowerCase_char c = CHR '' '' \<longleftrightarrow> c = CHR '' ''"
proof
  assume a: "ascii_toLowerCase_char c = CHR '' ''"
  show "c = CHR '' ''"
  proof (cases "65 \<le> (of_char c :: nat) \<and> (of_char c :: nat) \<le> 90")
    case True
    then have "char_of ((of_char c :: nat) + 32) = CHR '' ''"
      using a by (simp add: ascii_toLowerCase_char_def)
    then have "(of_char (char_of ((of_char c :: nat) + 32)) :: nat) = of_char CHR '' ''"
      by simp
    then have "((of_char c :: nat) + 32) mod 256 = 32"
      by simp
    with True show ?thesis
      by simp
  next
    case False
    then show ?thesis
      using a by (auto simp add: ascii_toLowerCase_char_def Let_def)
  qed
next
  assume "c = CHR '' ''"
  then show "ascii_toLowerCase_char c = CHR '' ''"
    by (simp add: ascii_toLowerCase_char_def)
qed

lemma space_ascii_toLowerCase:
  "CHR '' '' \<in> set (ascii_toLowerCase q) \<longleftrightarrow> CHR '' '' \<in> set q"
proof (induction q)
  case Nil
  show ?case by (simp add: ascii_toLowerCase_Nil)
next
  case (Cons c q)
  have "(CHR '' '' = ascii_toLowerCase_char c) = (CHR '' '' = c)"
    using ascii_toLowerCase_char_space [of c] by auto
  with Cons show ?case
    by (simp add: ascii_toLowerCase_Cons)
qed

text \<open>The fold of the ASCII letters is a lower-casing that works between the spaces.\<close>

lemma respects_spaces_ascii: "respects_spaces ascii_toLowerCase"
  unfolding respects_spaces_def
  by (simp add: ascii_toLowerCase_Nil ascii_toLowerCase_append ascii_toLowerCase_Cons
      ascii_toLowerCase_char_space_id ascii_toLowerCase_nonempty space_ascii_toLowerCase)

lemma respects_spaces_join:
  assumes "respects_spaces lc"
  shows "lc (join '' '' xs) = join '' '' (map lc xs)"
proof (induction "'' ''" xs rule: join.induct)
  case 1
  show ?case using assms by (simp add: respects_spaces_def)
next
  case (2 x)
  show ?case by simp
next
  case (3 x y ys)
  have "lc (x @ CHR '' '' # join '' '' (y # ys)) = lc x @ CHR '' '' # lc (join '' '' (y # ys))"
    using assms by (simp add: respects_spaces_def)
  with 3 show ?case by simp
qed

lemma sublist_across_separator:
  assumes "c \<notin> set t" and "t \<noteq> []"
  shows "sublist t (a @ c # b) \<longleftrightarrow> sublist t a \<or> sublist t b"
proof -
  have p: "\<not> prefix t (c # b)"
    using assms by (cases t) auto
  have "sublist t a" if "t = xs1 @ xs2" "suffix xs1 a" "prefix xs2 (c # b)" for xs1 xs2
  proof -
    have "xs2 = []"
      using that(1,3) assms(1) by (cases xs2) auto
    with that show ?thesis
      by (auto simp: suffix_def)
  qed
  then show ?thesis
    using p by (auto simp: sublist_append sublist_Cons_right)
qed

lemma sublist_join:
  assumes "c \<notin> set t" and "t \<noteq> []"
  shows "sublist t (join [c] xs) \<longleftrightarrow> list_ex (sublist t) xs"
  using assms
  by (induction "[c]" xs rule: join.induct) (auto simp: sublist_across_separator)

lemma list_ex_map: "list_ex P (map f xs) = list_ex (\<lambda>x. P (f x)) xs"
  by (induction xs) simp_all

lemma searchableText_match:
  assumes "respects_spaces lc" and "q \<noteq> []" and "CHR '' '' \<notin> set q"
  shows "includes_str (searchableText lc job) (lc q) \<longleftrightarrow>
         appears_in lc q (title job) \<or> appears_in lc q (company job) \<or>
         appears_in lc q (description job) \<or> list_ex (appears_in lc q) (skills job)"
proof -
  let ?t = "lc q"
  have t: "CHR '' '' \<notin> set ?t" "?t \<noteq> []"
    using assms by (simp_all add: respects_spaces_def)
  have d: "lc (a @ CHR '' '' # b) = lc a @ CHR '' '' # lc b" for a b
    using assms(1) by (simp add: respects_spaces_def)
  have s: "searchableText lc job =
      lc (title job) @ CHR '' '' # lc (company job) @ CHR '' '' #
      lc (description job) @ CHR '' '' # join '' '' (map lc (skills job))"
    by (simp add: searchableText_def d respects_spaces_join [OF assms(1)])
  have a: "appears_in lc q = (\<lambda>s. sublist ?t (lc s))"
    by (simp add: appears_in_def includes_str_def fun_eq_iff)
  show ?thesis
    unfolding s includes_str_def a
    by (simp add: sublist_across_separator [OF t] sublist_join [OF t] list_ex_map)
qed

lemma getFilteredJobs_query_remote:
  assumes "q \<noteq> []"
  shows "getFilteredJobs lc q (only_remote r) w =
         filter (\<lambda>job. includes_str (searchableText lc job) (lc q) \<and> remote job = r) (jobs w)"
  using assms by (simp add: getFilteredJobs_def only_remote_def)

text \<open>
  C6. On every catalog, \<open>getFilteredJobs("react", {remote: true})\<close> is the catalog
  filtered, in its own order, by the conjunction of two tests: the record has \<open>react\<close>,
  case-insensitively, in one of the text fields this function searches (title, company,
  description, a skill), and its \<open>remote\<close> flag is true. The result is a subsequence of
  the catalog. The lower-casing is the fold of the ASCII letters.
\<close>

theorem filter_react_remote:
  "getFilteredJobs ascii_toLowerCase ''react'' (only_remote True) w =
     filter (\<lambda>job. (appears_in ascii_toLowerCase ''react'' (title job) \<or>
                    appears_in ascii_toLowerCase ''react'' (company job) \<or>
                    appears_in ascii_toLowerCase ''react'' (description job) \<or>
                    list_ex (appears_in ascii_toLowerCase ''react'') (skills job)) \<and>
                   remote job = True) (jobs w) \<and>
   subseq (getFilteredJobs ascii_toLowerCase ''react'' (only_remote True) w) (jobs w)"
proof -
  have q: "''react'' \<noteq> []" "CHR '' '' \<notin> set ''react''"
    by simp_all
  have e: "getFilteredJobs ascii_toLowerCase ''react'' (only_remote True) w =
     filter (\<lambda>job. (appears_in ascii_toLowerCase ''react'' (title job) \<or>
                    appears_in ascii_toLowerCase ''react'' (company job) \<or>
                    appears_in ascii_toLowerCase ''react'' (description job) \<or>
                    list_ex (appears_in ascii_toLowerCase ''react'') (skills job)) \<and>
                   remote job = True) (jobs w)"
    unfolding getFilteredJobs_query_remote [OF q(1)]
      searchableText_match [OF respects_spaces_ascii q] ..
  show ?thesis
    unfolding e by (simp add: e)
qed

theorem filter_react_remote_witness:
  "getFilteredJobs ascii_toLowerCase ''react'' (only_remote True) sample_world = [sample_job]"
proof -
  have "filter (\<lambda>job. (appears_in ascii_toLowerCase ''react'' (title job) \<or>
                    appears_in ascii_toLowerCase ''react'' (company job) \<or>
                    appears_in ascii_toLowerCase ''react'' (description job) \<or>
                    list_ex (appears_in ascii_toLowerCase ''react'') (skills job)) \<and>
                   remote job = True) (jobs sample_world) = [sample_job]"
    by code_simp
  with filter_react_remote [of sample_world, THEN conjunct1] show ?thesis
    by (rule trans)
qed






section \<open>Synchronisation from the API\<close>

lemma map_enumerate_snd: "map (\<lambda>(i, x). f x) (enumerate n xs) = map f xs"
  by (induction xs arbitrary: n) simp_all

lemma length_normalizeAPIJobs: "length (normalizeAPIJobs e ps) = length ps"
  by (simp add: normalizeAPIJobs_def)

lemma source_normalizeJob: "source (normalizeJob e i p) = api"
  by (simp add: normalizeJob_def)

lemma source_normalizeAPIJobs: "job \<in> set (normalizeAPIJobs e ps) \<Longrightarrow> source job = api"
proof -
  assume "job \<in> set (normalizeAPIJobs e ps)"
  then obtain ip where "job = (\<lambda>(index, p). normalizeJob e index p) ip"
    unfolding normalizeAPIJobs_def by (auto simp only: set_map)
  then show ?thesis
    by (cases ip) (simp add: source_normalizeJob)
qed

lemma filter_api_normalizeAPIJobs:
  "filter (\<lambda>job. source job = api) (normalizeAPIJobs e ps) = normalizeAPIJobs e ps"
  by (simp add: source_normalizeAPIJobs)

lemma filter_admin_normalizeAPIJobs:
  "filter (\<lambda>job. source job = admin) (normalizeAPIJobs e ps) = []"
  by (auto simp: filter_empty_conv dest: source_normalizeAPIJobs)

lemma jobs_syncJobsFromAPI:
  "jobs (syncJobsFromAPI e ps w) =
     filter (\<lambda>job. source job = admin) (jobs w) @ normalizeAPIJobs e ps"
  by (simp add: syncJobsFromAPI_def saveToStorage_def Let_def)

text \<open>
  C1. \<open>syncJobsFromAPI\<close> replaces the whole external subset: the catalog afterwards is
  the records of provenance \<open>admin\<close>, as they were and in their order, followed by the
  newly normalized records. So the local records after the call are the local records
  before it, the external records after it are exactly the normalized payloads (none of
  the former external records is kept), the size is N + K, and the list is persisted.
\<close>

theorem sync_replaces_external:
  "getAllJobs (syncJobsFromAPI e payloads w) =
     filter (\<lambda>job. source job = admin) (getAllJobs w) @ normalizeAPIJobs e payloads \<and>
   filter (\<lambda>job. source job = admin) (getAllJobs (syncJobsFromAPI e payloads w)) =
     filter (\<lambda>job. source job = admin) (getAllJobs w) \<and>
   filter (\<lambda>job. source job = api) (getAllJobs (syncJobsFromAPI e payloads w)) =
     normalizeAPIJobs e payloads \<and>
   length (getAllJobs (syncJobsFromAPI e payloads w)) =
     length (filter (\<lambda>job. source job = admin) (getAllJobs w)) +
     length (normalizeAPIJobs e payloads) \<and>
   localStorage (syncJobsFromAPI e payloads w) STORAGE_KEY =
     Some (JobsJSON (getAllJobs (syncJobsFromAPI e payloads w)))"
proof -
  have a: "filter (\<lambda>job. source job = api) (filter (\<lambda>job. source job = admin) xs) = []" for xs
    by (induction xs) simp_all
  have s: "localStorage (syncJobsFromAPI e payloads w) STORAGE_KEY =
     Some (JobsJSON (jobs (syncJobsFromAPI e payloads w)))"
    by (simp add: syncJobsFromAPI_def saveToStorage_def Let_def)
  show ?thesis
    unfolding getAllJobs_def s jobs_syncJobsFromAPI
    by (simp add: filter_api_normalizeAPIJobs filter_admin_normalizeAPIJobs a)
qed

theorem sync_replaces_external_witness:
  "getAllJobs (syncJobsFromAPI sample_env [untidy_payload] sample_world) =
     [sample_job, normalizeJob sample_env 0 untidy_payload]"
proof -
  have "filter (\<lambda>job. source job = admin) (getAllJobs sample_world) = [sample_job]"
    by code_simp
  moreover have "normalizeAPIJobs sample_env [untidy_payload] =
      [normalizeJob sample_env 0 untidy_payload]"
    by (simp add: normalizeAPIJobs_def)
  ultimately show ?thesis
    using sync_replaces_external [of sample_env "[untidy_payload]" sample_world] by simp
qed

text \<open>
  C5, as amended. The \<open>skills\<close> and \<open>requirements\<close> of the records ingested by
  \<open>syncJobsFromAPI\<close> are the payloads' own lists, entry for entry: \<open>skills\<close> is the
  payload's \<open>skills\<close> when it has them, else its \<open>requirements\<close>, else empty, and
  \<open>requirements\<close> the other way round. Nothing is trimmed and nothing is dropped.
\<close>

theorem sync_lists_verbatim:
  "map skills (filter (\<lambda>job. source job = api) (getAllJobs (syncJobsFromAPI e payloads w))) =
     map (\<lambda>p. case p_skills p of Some xs \<Rightarrow> xs
              | None \<Rightarrow> (case p_requirements p of Some ys \<Rightarrow> ys | None \<Rightarrow> [])) payloads \<and>
   map requirements
     (filter (\<lambda>job. source job = api) (getAllJobs (syncJobsFromAPI e payloads w))) =
     map (\<lambda>p. case p_requirements p of Some ys \<Rightarrow> ys
              | None \<Rightarrow> (case p_skills p of Some xs \<Rightarrow> xs | None \<Rightarrow> [])) payloads"
proof -
  have a: "filter (\<lambda>job. source job = api) (filter (\<lambda>job. source job = admin) xs) = []"
    for xs :: "Job list"
    by (induction xs) simp_all
  have f: "filter (\<lambda>job. source job = api) (getAllJobs (syncJobsFromAPI e payloads w)) =
      normalizeAPIJobs e payloads"
    by (simp add: getAllJobs_def jobs_syncJobsFromAPI filter_api_normalizeAPIJobs a)
  have s: "map skills (normalizeAPIJobs e payloads) =
      map (\<lambda>p. skills (normalizeJob e 0 p)) payloads"
    unfolding normalizeAPIJobs_def map_map
    by (subst map_enumerate_snd [symmetric, where n = 0])
       (simp add: comp_def case_prod_beta normalizeJob_def)
  have r: "map requirements (normalizeAPIJobs e payloads) =
      map (\<lambda>p. requirements (normalizeJob e 0 p)) payloads"
    unfolding normalizeAPIJobs_def map_map
    by (subst map_enumerate_snd [symmetric, where n = 0])
       (simp add: comp_def case_prod_beta normalizeJob_def)
  show ?thesis
    unfolding f s r by (simp add: normalizeJob_def list_or_def)
qed

theorem sync_lists_verbatim_witness:
  "map skills (filter (\<lambda>job. source job = api)
      (getAllJobs (syncJobsFromAPI sample_env [untidy_payload] sample_world))) =
     [['''', '' React '']] \<and>
   map requirements (filter (\<lambda>job. source job = api)
      (getAllJobs (syncJobsFromAPI sample_env [untidy_payload] sample_world))) =
     [['''', '' React '']]"
  using sync_lists_verbatim [of sample_env "[untidy_payload]" sample_world]
  by (simp add: untidy_payload_def empty_payload_def)

text \<open>
  The claim as it was stated fails: an empty entry and an untrimmed entry of a payload
  are in the skills of the external record that the catalog holds after the call.
\<close>

theorem sync_keeps_untidy_entries:
  "\<not> clean_entries
       (skills (last (getAllJobs (syncJobsFromAPI sample_env [untidy_payload] sample_world)))) \<and>
   source (last (getAllJobs (syncJobsFromAPI sample_env [untidy_payload] sample_world))) = api"
  by code_simp

text \<open>
  C9. When the fetch fails (the request is rejected, the response is not \<open>ok\<close>, the body
  is not JSON, or the JSON is \<open>null\<close>), \<open>searchJobs\<close> with \<open>forceAPI\<close> leaves the
  catalog and the storage as they were and returns the filtered view of the catalog.
\<close>

theorem sync_failure_atomic:
  "searchJobs lc e Rejected q f True w = (getFilteredJobs lc q f w, w) \<and>
   searchJobs lc e (Response False body) q f True w = (getFilteredJobs lc q f w, w) \<and>
   searchJobs lc e (Response True InvalidJSON) q f True w = (getFilteredJobs lc q f w, w) \<and>
   searchJobs lc e (Response True (ValidJSON DataNull)) q f True w =
     (getFilteredJobs lc q f w, w)"
  by (simp add: searchJobs_def fetch_and_sync_def)

theorem sync_failure_atomic_witness:
  "searchJobs ascii_toLowerCase sample_env Rejected ''react'' (only_remote True) True
     sample_world = ([sample_job], sample_world) \<and>
   searchJobs ascii_toLowerCase sample_env (Response False InvalidJSON) ''react''
     (only_remote True) True sample_world = ([sample_job], sample_world)"
proof -
  have "getFilteredJobs ascii_toLowerCase ''react'' (only_remote True) sample_world =
      [sample_job]"
    by code_simp
  then show ?thesis
    using sync_failure_atomic
      [of ascii_toLowerCase sample_env "''react''" "only_remote True" sample_world InvalidJSON]
    by simp
qed

section \<open>Adding jobs\<close>

lemma jobs_addJob: "jobs (snd (addJob e jobData w)) = fst (addJob e jobData w) # jobs w"
  by (simp add: addJob_def saveToStorage_def Let_def)

lemma job_id_addJob: "job_id (fst (addJob e jobData w)) = generateId e"
  by (simp add: addJob_def Let_def)

lemma distinct_addJobs:
  "distinct (map job_id (jobs (addJobs calls w))) \<longleftrightarrow>
   distinct (map job_id (jobs w)) \<and> fresh_ids calls w"
proof (induction calls arbitrary: w)
  case Nil
  show ?case by simp
next
  case (Cons c calls)
  obtain e jobData where c: "c = (e, jobData)"
    by (cases c)
  show ?case
    unfolding c by (auto simp: Cons.IH jobs_addJob job_id_addJob)
qed

subsection \<open>The ids that \<open>generateId\<close> makes\<close>

lemma digits_small: "n < 10 \<Longrightarrow> digits n = [digit n]"
  by (subst digits.simps) simp

lemma digits_large: "\<not> n < 10 \<Longrightarrow> digits n = digits (n div 10) @ [digit (n mod 10)]"
  by (subst digits.simps) simp

lemma of_char_digit: "0 \<le> d \<Longrightarrow> d < 10 \<Longrightarrow> (of_char (digit d) :: int) = 48 + d"
  by (simp add: digit_def)

lemma decimal_value_snoc: "decimal_value (s @ [c]) = 10 * decimal_value s + (of_char c - 48)"
  by (simp add: decimal_value_def)

lemma decimal_value_digits: "0 \<le> n \<Longrightarrow> decimal_value (digits n) = n"
proof (induction n rule: digits.induct)
  case (1 n)
  show ?case
  proof (cases "n < 10")
    case True
    with "1.prems" show ?thesis
      by (simp add: digits_small decimal_value_def of_char_digit)
  next
    case False
    then have "decimal_value (digits (n div 10)) = n div 10"
      using "1.IH" "1.prems" by simp
    with False "1.prems" show ?thesis
      by (simp add: digits_large decimal_value_snoc of_char_digit)
  qed
qed

lemma digits_chars:
  "0 \<le> n \<Longrightarrow> c \<in> set (digits n) \<Longrightarrow> 48 \<le> (of_char c :: int) \<and> (of_char c :: int) \<le> 57"
proof (induction n rule: digits.induct)
  case (1 n)
  show ?case
  proof (cases "n < 10")
    case True
    with "1.prems" show ?thesis
      by (simp add: digits_small of_char_digit)
  next
    case False
    have "c \<in> set (digits (n div 10)) \<or> c = digit (n mod 10)"
      using "1.prems"(2) False by (auto simp: digits_large)
    then show ?thesis
    proof
      assume "c \<in> set (digits (n div 10))"
      with "1.IH" False "1.prems"(1) show ?thesis by simp
    next
      assume "c = digit (n mod 10)"
      then show ?thesis by (simp add: of_char_digit)
    qed
  qed
qed

lemma digits_nonempty: "digits n \<noteq> []"
  by (cases "n < 10") (simp_all add: digits_small digits_large)

lemma digits_inj: "0 \<le> a \<Longrightarrow> 0 \<le> b \<Longrightarrow> digits a = digits b \<Longrightarrow> a = b"
  by (metis decimal_value_digits)

lemma toString_inj: "toString (Num a) = toString (Num b) \<Longrightarrow> a = b"
proof -
  assume eq: "toString (Num a) = toString (Num b)"
  have minus: "CHR ''-'' \<notin> set (digits n)" if "0 \<le> n" for n
    using digits_chars [OF that, of "CHR ''-''"] by auto
  have hd: "digits n \<noteq> CHR ''-'' # s" if "0 \<le> n" for n s
    using minus [OF that] by (metis list.set_intros(1))
  consider "a < 0" "b < 0" | "a < 0" "0 \<le> b" | "0 \<le> a" "b < 0" | "0 \<le> a" "0 \<le> b"
    by linarith
  then show ?thesis
  proof cases
    case 1
    with eq have "digits (- a) = digits (- b)" by simp
    with 1 show ?thesis using digits_inj [of "- a" "- b"] by simp
  next
    case 2
    with eq hd [of b "digits (- a)"] show ?thesis by simp
  next
    case 3
    with eq hd [of a "digits (- b)"] show ?thesis by simp
  next
    case 4
    with eq show ?thesis using digits_inj [of a b] by simp
  qed
qed

lemma toString_no_underscore: "CHR ''_'' \<notin> set (toString (Num a))"
proof -
  have "CHR ''_'' \<notin> set (digits n)" if "0 \<le> n" for n
    using digits_chars [OF that, of "CHR ''_''"] by auto
  then show ?thesis
    by simp
qed

lemma split_at_first:
  "x \<notin> set xs \<Longrightarrow> x \<notin> set xs' \<Longrightarrow>
   xs @ x # ys = xs' @ x # ys' \<longleftrightarrow> xs = xs' \<and> ys = ys'"
proof (induction xs arbitrary: xs')
  case Nil
  then show ?case by (cases xs') auto
next
  case (Cons a xs)
  then show ?case by (cases xs') auto
qed

lemma generateId_eq_iff: "generateId e1 = generateId e2 \<longleftrightarrow> id_reading e1 = id_reading e2"
proof -
  have "toString (Num (Date_now e1)) @ CHR ''_'' # take 9 (drop 2 (Math_random36 e1)) =
        toString (Num (Date_now e2)) @ CHR ''_'' # take 9 (drop 2 (Math_random36 e2)) \<longleftrightarrow>
        toString (Num (Date_now e1)) = toString (Num (Date_now e2)) \<and>
        take 9 (drop 2 (Math_random36 e1)) = take 9 (drop 2 (Math_random36 e2))"
    by (rule split_at_first) (rule toString_no_underscore)+
  then show ?thesis
    unfolding generateId_def id_reading_def
    using toString_inj [of "Date_now e1" "Date_now e2"]
    by (auto simp del: toString.simps)
qed

lemma generateId_mem_iff:
  "generateId e \<in> set (map generateId es) \<longleftrightarrow> id_reading e \<in> set (map id_reading es)"
  by (induction es) (simp_all add: generateId_eq_iff)

lemma distinct_generateId:
  "distinct (map generateId es) \<longleftrightarrow> distinct (map id_reading es)"
  by (induction es) (simp_all add: generateId_mem_iff del: set_map)

lemma fresh_ids_iff:
  "fresh_ids calls w \<longleftrightarrow>
   distinct (map (\<lambda>c. generateId (fst c)) calls) \<and>
   list_all (\<lambda>c. generateId (fst c) \<notin> set (map job_id (jobs w))) calls"
proof (induction calls arbitrary: w)
  case Nil
  show ?case by simp
next
  case (Cons c calls)
  obtain e jobData where c: "c = (e, jobData)"
    by (cases c)
  have ids: "set (map job_id (jobs (snd (addJob e jobData w)))) =
      insert (generateId e) (set (map job_id (jobs w)))"
    by (simp add: jobs_addJob job_id_addJob)
  have "list_all (\<lambda>c. generateId (fst c) \<notin> insert (generateId e) (set (map job_id (jobs w))))
          calls \<longleftrightarrow>
        generateId e \<notin> set (map (\<lambda>c. generateId (fst c)) calls) \<and>
        list_all (\<lambda>c. generateId (fst c) \<notin> set (map job_id (jobs w))) calls"
    by (induction calls) auto
  then show ?case
    unfolding c by (auto simp: Cons.IH ids simp del: set_map)
qed

text \<open>
  C2, as amended. \<open>addJob\<close> gives the new record the id that \<open>generateId\<close> makes and
  puts the record at the front, without looking at the ids the catalog holds. Two calls
  make the same id exactly when they read the same clock value and the same nine
  characters of random text. So after a sequence of \<open>addJob\<close> calls no two records share
  an id exactly when no two records shared one before, no two calls read the same clock
  value together with the same nine characters of random text, and no call's id is an
  id of the starting catalog.
\<close>

theorem add_ids_unique_iff_fresh:
  "job_id (fst (addJob e jobData w)) = generateId e \<and>
   getAllJobs (snd (addJob e jobData w)) = fst (addJob e jobData w) # getAllJobs w \<and>
   (generateId e1 = generateId e2 \<longleftrightarrow>
      Date_now e1 = Date_now e2 \<and>
      take 9 (drop 2 (Math_random36 e1)) = take 9 (drop 2 (Math_random36 e2))) \<and>
   (distinct (map job_id (getAllJobs (addJobs calls w))) \<longleftrightarrow>
      distinct (map job_id (getAllJobs w)) \<and>
      distinct (map (\<lambda>c. id_reading (fst c)) calls) \<and>
      list_all (\<lambda>c. generateId (fst c) \<notin> set (map job_id (getAllJobs w))) calls)"
proof -
  have a: "job_id (fst (addJob e jobData w)) = generateId e"
    "getAllJobs (snd (addJob e jobData w)) = fst (addJob e jobData w) # getAllJobs w"
    by (simp_all add: getAllJobs_def jobs_addJob job_id_addJob)
  have b: "generateId e1 = generateId e2 \<longleftrightarrow>
      Date_now e1 = Date_now e2 \<and>
      take 9 (drop 2 (Math_random36 e1)) = take 9 (drop 2 (Math_random36 e2))"
    by (simp add: generateId_eq_iff id_reading_def)
  have d: "distinct (map (\<lambda>c. generateId (fst c)) calls) = distinct (map (\<lambda>c. id_reading (fst c)) calls)"
    using distinct_generateId [of "map fst calls"] by (simp add: comp_def)
  have c: "distinct (map job_id (getAllJobs (addJobs calls w))) \<longleftrightarrow>
      distinct (map job_id (getAllJobs w)) \<and>
      distinct (map (\<lambda>c. id_reading (fst c)) calls) \<and>
      list_all (\<lambda>c. generateId (fst c) \<notin> set (map job_id (getAllJobs w))) calls"
    unfolding getAllJobs_def distinct_addJobs fresh_ids_iff d ..
  show ?thesis
    using a b c by (intro conjI)
qed

theorem add_ids_unique_iff_fresh_witness:
  "distinct (map job_id (getAllJobs
      (addJobs [(sample_env, sample_data), (later_env, sample_data),
         (other_draw_env, sample_data)] sample_world))) \<and>
   generateId sample_env \<noteq> generateId later_env \<and>
   generateId sample_env \<noteq> generateId other_draw_env"
proof -
  note t = add_ids_unique_iff_fresh
    [of sample_env sample_data sample_world sample_env later_env
      "[(sample_env, sample_data), (later_env, sample_data), (other_draw_env, sample_data)]"]
  note u = add_ids_unique_iff_fresh
    [of sample_env sample_data sample_world sample_env other_draw_env "[]"]
  have "distinct (map job_id (getAllJobs sample_world)) \<and>
      distinct (map (\<lambda>c. id_reading (fst c))
        [(sample_env, sample_data), (later_env, sample_data), (other_draw_env, sample_data)]) \<and>
      list_all (\<lambda>c. generateId (fst c) \<notin> set (map job_id (getAllJobs sample_world)))
        [(sample_env, sample_data), (later_env, sample_data), (other_draw_env, sample_data)]"
    by code_simp
  moreover have "Date_now sample_env \<noteq> Date_now later_env"
    by code_simp
  moreover have "take 9 (drop 2 (Math_random36 sample_env)) \<noteq>
      take 9 (drop 2 (Math_random36 other_draw_env))"
    by code_simp
  ultimately show ?thesis
    using t u by blast
qed

text \<open>
  Random texts that differ only after the characters \<open>substr(2, 9)\<close> keeps give the same
  id at the same clock value.
\<close>

lemma truncated_suffix_collides:
  "Math_random36 sample_env \<noteq> Math_random36 truncated_env \<and>
   generateId sample_env = generateId truncated_env"
  by code_simp

text \<open>
  The claim as it was stated fails: two \<open>addJob\<close> calls that read the same clock value
  and the same random text, on a catalog whose ids are unique, leave two records with
  one id.
\<close>

theorem add_same_reading_collides:
  "distinct (map job_id (getAllJobs sample_world)) \<and>
   \<not> distinct (map job_id (getAllJobs
      (addJobs [(sample_env, sample_data), (sample_env, sample_data)] sample_world)))"
  by code_simp

section \<open>The posting-age label\<close>

lemma formatDate_invalid: "Date_getTime e s = NaN \<Longrightarrow> formatDate e s = ''NaN months ago''"
  by (simp add: formatDate_def Let_def)

text \<open>
  C3. A payload whose \<open>created_at\<close> is a non-empty string that is no date is normalized
  to a record whose label is \<open>NaN months ago\<close>, not \<open>Recently\<close>: \<open>new Date\<close> does not
  throw, the time value is \<open>NaN\<close>, every comparison with it is false, and the last
  branch of \<open>formatDate\<close> prints it.
\<close>

theorem unparseable_timestamp_label:
  "map posted (normalizeAPIJobs sample_env [empty_payload\<lparr>p_created_at := Some ''not a date''\<rparr>]) =
     [''NaN months ago'']"
  by code_simp

text \<open>
  The buckets of \<open>formatDate\<close> on a string that is a date less than \<open>2 ^ 53\<close>
  milliseconds from the clock, with \<open>d\<close> the number of days between the clock and the
  date, rounded up: \<open>1 day ago\<close> for \<open>d = 1\<close>, \<open>d days ago\<close> for \<open>d < 7\<close> (also for
  \<open>d = 0\<close>), the weeks rounded up for \<open>d < 30\<close>, else the months rounded up.
\<close>

theorem formatDate_buckets:
  assumes "Date_getTime e s = Num t" and "\<bar>Date_now e - t\<bar> < 2 ^ 53"
  shows "formatDate e s =
     (let d = - ((- \<bar>Date_now e - t\<bar>) div 86400000)
      in if d = 1 then ''1 day ago''
         else if d < 7 then toString (Num d) @ '' days ago''
         else if d < 30 then toString (Num (- ((- d) div 7))) @ '' weeks ago''
         else toString (Num (- ((- d) div 30))) @ '' months ago'')"
  using assms(1) by (simp add: formatDate_def Let_def)


theorem formatDate_buckets_witness:
  "formatDate sample_env ''2023-12-30T00:00:00.000Z'' = ''2 days ago'' \<and>
   formatDate sample_env ''2023-12-22T00:00:00.000Z'' = ''2 weeks ago'' \<and>
   formatDate sample_env ''2023-11-17T00:00:00.000Z'' = ''2 months ago''"
proof -
  have g: "Date_getTime sample_env ''2023-12-30T00:00:00.000Z'' = Num 1703894400000"
    "Date_getTime sample_env ''2023-12-22T00:00:00.000Z'' = Num 1703203200000"
    "Date_getTime sample_env ''2023-11-17T00:00:00.000Z'' = Num 1700179200000"
    by code_simp+
  have n: "Date_now sample_env = 1704067200000"
    by (simp add: sample_env_def)
  have r: "\<bar>Date_now sample_env - 1703894400000\<bar> < 2 ^ 53"
    "\<bar>Date_now sample_env - 1703203200000\<bar> < 2 ^ 53"
    "\<bar>Date_now sample_env - 1700179200000\<bar> < 2 ^ 53"
    unfolding n by simp_all
  have d: "toString (Num 2) = ''2''"
    by code_simp
  show ?thesis
    unfolding formatDate_buckets [OF g(1) r(1)] formatDate_buckets [OF g(2) r(2)]
      formatDate_buckets [OF g(3) r(3)] n
    by (simp add: Let_def d del: toString.simps)
qed


section \<open>Updating a job\<close>

lemma findIndex_None: "findIndex P xs = None \<longleftrightarrow> \<not> list_ex P xs"
  by (induction xs) (auto split: option.splits)

lemma findIndex_Some:
  "findIndex P xs = Some k \<Longrightarrow> k < length xs \<and> P (xs ! k) \<and> \<not> list_ex P (take k xs)"
proof (induction xs arbitrary: k)
  case Nil
  then show ?case by simp
next
  case (Cons x xs)
  show ?case
  proof (cases "P x")
    case True
    with Cons.prems show ?thesis by simp
  next
    case False
    with Cons.prems obtain j where j: "findIndex P xs = Some j" "k = Suc j"
      by (auto split: option.splits)
    with Cons.IH [OF j(1)] False show ?thesis by simp
  qed
qed

lemma findIndex_first:
  assumes "findIndex P xs = Some k" and "j < k"
  shows "\<not> P (xs ! j)"
proof -
  have k: "k < length xs" "\<not> list_ex P (take k xs)"
    using findIndex_Some [OF assms(1)] by simp_all
  have "xs ! j \<in> set (take k xs)"
    using k(1) assms(2) by (metis in_set_conv_nth length_take min.absorb2 nth_take less_imp_le)
  with k(2) show ?thesis
    by (auto simp: list_ex_iff)
qed

lemma findIndex_id_None:
  "findIndex (\<lambda>job. job_id job = i) js = None \<longleftrightarrow> i \<notin> set (map job_id js)"
  by (auto simp: findIndex_None list_ex_iff)

lemma updateJob_absent:
  "i \<notin> set (map job_id (jobs w)) \<Longrightarrow> updateJob e i u w = (None, w)"
proof -
  assume "i \<notin> set (map job_id (jobs w))"
  then have "findIndex (\<lambda>job. job_id job = i) (jobs w) = None"
    using findIndex_id_None [of i "jobs w"] by blast
  then show ?thesis
    by (simp add: updateJob_def)
qed

lemma updateJob_present:
  assumes "findIndex (\<lambda>job. job_id job = i) (jobs w) = Some index"
  shows "updateJob e i u w =
     (Some ((spread (jobs w ! index) u)\<lparr>updated_at := Date_toISOString e\<rparr>),
      w\<lparr>jobs := (jobs w)[index := (spread (jobs w ! index) u)\<lparr>updated_at := Date_toISOString e\<rparr>],
        localStorage := (localStorage w)(STORAGE_KEY \<mapsto>
          JobsJSON ((jobs w)[index := (spread (jobs w ! index) u)\<lparr>updated_at := Date_toISOString e\<rparr>]))\<rparr>)"
proof -
  have "index < length (jobs w)"
    using findIndex_Some [OF assms] by simp
  then show ?thesis
    by (simp add: updateJob_def assms saveToStorage_def Let_def)
qed


lemma findIndex_id_Some:
  assumes "i \<in> set (map job_id js)"
  shows "\<exists>index. findIndex (\<lambda>job. job_id job = i) js = Some index"
  using assms findIndex_id_None [of i js] by (cases "findIndex (\<lambda>job. job_id job = i) js") auto

text \<open>
  C4, as amended. When no record has the id, \<open>updateJob\<close> returns nothing and leaves the
  catalog and the storage as they were. When a record has it, the first such record (no
  record before it has the id) is replaced, at its position, and the list is persisted:
  every field that the argument names takes the given value, every field it does not
  name keeps its value (so \<open>created_at\<close> and \<open>source\<close> are unchanged when they are not
  named), \<open>updated_at\<close> becomes the clock's reading (so it does not decrease when that
  reading is not before the stored value), and the records at the other positions are
  untouched.
\<close>

theorem updateJob_frame:
  "(i \<notin> set (map job_id (jobs w)) \<longrightarrow> updateJob e i u w = (None, w)) \<and>
   (i \<in> set (map job_id (jobs w)) \<longrightarrow>
     (\<exists>index new.
        index < length (jobs w) \<and> job_id (jobs w ! index) = i \<and>
        (\<forall>k<index. job_id (jobs w ! k) \<noteq> i) \<and>
        updateJob e i u w =
          (Some new,
           w\<lparr>jobs := (jobs w)[index := new],
             localStorage := (localStorage w)(STORAGE_KEY \<mapsto> JobsJSON ((jobs w)[index := new]))\<rparr>) \<and>
        job_id new = (case u_id u of Some v \<Rightarrow> v | None \<Rightarrow> job_id (jobs w ! index)) \<and>
        title new = (case u_title u of Some v \<Rightarrow> v | None \<Rightarrow> title (jobs w ! index)) \<and>
        company new = (case u_company u of Some v \<Rightarrow> v | None \<Rightarrow> company (jobs w ! index)) \<and>
        location new = (case u_location u of Some v \<Rightarrow> v | None \<Rightarrow> location (jobs w ! index)) \<and>
        type new = (case u_type u of Some v \<Rightarrow> v | None \<Rightarrow> type (jobs w ! index)) \<and>
        experience new =
          (case u_experience u of Some v \<Rightarrow> v | None \<Rightarrow> experience (jobs w ! index)) \<and>
        salary new = (case u_salary u of Some v \<Rightarrow> v | None \<Rightarrow> salary (jobs w ! index)) \<and>
        description new =
          (case u_description u of Some v \<Rightarrow> v | None \<Rightarrow> description (jobs w ! index)) \<and>
        requirements new =
          (case u_requirements u of Some v \<Rightarrow> v | None \<Rightarrow> requirements (jobs w ! index)) \<and>
        posted new = (case u_posted u of Some v \<Rightarrow> v | None \<Rightarrow> posted (jobs w ! index)) \<and>
        url new = (case u_url u of Some v \<Rightarrow> v | None \<Rightarrow> url (jobs w ! index)) \<and>
        logo new = (case u_logo u of Some v \<Rightarrow> v | None \<Rightarrow> logo (jobs w ! index)) \<and>
        remote new = (case u_remote u of Some v \<Rightarrow> v | None \<Rightarrow> remote (jobs w ! index)) \<and>
        skills new = (case u_skills u of Some v \<Rightarrow> v | None \<Rightarrow> skills (jobs w ! index)) \<and>
        application_link new =
          (case u_application_link u of Some v \<Rightarrow> v
           | None \<Rightarrow> application_link (jobs w ! index)) \<and>
        created_at new =
          (case u_created_at u of Some v \<Rightarrow> v | None \<Rightarrow> created_at (jobs w ! index)) \<and>
        source new = (case u_source u of Some v \<Rightarrow> v | None \<Rightarrow> source (jobs w ! index)) \<and>
        updated_at new = Date_toISOString e \<and>
        (updated_at (jobs w ! index) \<le> Date_toISOString e \<longrightarrow>
           updated_at (jobs w ! index) \<le> updated_at new) \<and>
        length (getAllJobs (snd (updateJob e i u w))) = length (getAllJobs w) \<and>
        (\<forall>k. k \<noteq> index \<longrightarrow>
           getAllJobs (snd (updateJob e i u w)) ! k = getAllJobs w ! k)))"
proof (intro conjI impI)
  assume "i \<notin> set (map job_id (jobs w))"
  then show "updateJob e i u w = (None, w)"
    by (rule updateJob_absent)
next
  assume "i \<in> set (map job_id (jobs w))"
  then obtain index where fi: "findIndex (\<lambda>job. job_id job = i) (jobs w) = Some index"
    using findIndex_id_Some by blast
  define new where "new = (spread (jobs w ! index) u)\<lparr>updated_at := Date_toISOString e\<rparr>"
  note r = updateJob_present [OF fi, of e u, folded new_def]
  have a: "index < length (jobs w)" "job_id (jobs w ! index) = i"
    "\<forall>k<index. job_id (jobs w ! k) \<noteq> i"
    using findIndex_Some [OF fi] by (simp_all add: findIndex_first [OF fi])
  have f1: "job_id new = (case u_id u of Some v \<Rightarrow> v | None \<Rightarrow> job_id (jobs w ! index))"
    "title new = (case u_title u of Some v \<Rightarrow> v | None \<Rightarrow> title (jobs w ! index))"
    "company new = (case u_company u of Some v \<Rightarrow> v | None \<Rightarrow> company (jobs w ! index))"
    "location new = (case u_location u of Some v \<Rightarrow> v | None \<Rightarrow> location (jobs w ! index))"
    "type new = (case u_type u of Some v \<Rightarrow> v | None \<Rightarrow> type (jobs w ! index))"
    "experience new =
      (case u_experience u of Some v \<Rightarrow> v | None \<Rightarrow> experience (jobs w ! index))"
    by (simp_all add: new_def spread_def override_def)
  have f2: "salary new = (case u_salary u of Some v \<Rightarrow> v | None \<Rightarrow> salary (jobs w ! index))"
    "description new =
      (case u_description u of Some v \<Rightarrow> v | None \<Rightarrow> description (jobs w ! index))"
    "requirements new =
      (case u_requirements u of Some v \<Rightarrow> v | None \<Rightarrow> requirements (jobs w ! index))"
    "posted new = (case u_posted u of Some v \<Rightarrow> v | None \<Rightarrow> posted (jobs w ! index))"
    "url new = (case u_url u of Some v \<Rightarrow> v | None \<Rightarrow> url (jobs w ! index))"
    "logo new = (case u_logo u of Some v \<Rightarrow> v | None \<Rightarrow> logo (jobs w ! index))"
    by (simp_all add: new_def spread_def override_def)
  have f3: "remote new = (case u_remote u of Some v \<Rightarrow> v | None \<Rightarrow> remote (jobs w ! index))"
    "skills new = (case u_skills u of Some v \<Rightarrow> v | None \<Rightarrow> skills (jobs w ! index))"
    "application_link new =
      (case u_application_link u of Some v \<Rightarrow> v | None \<Rightarrow> application_link (jobs w ! index))"
    "created_at new =
      (case u_created_at u of Some v \<Rightarrow> v | None \<Rightarrow> created_at (jobs w ! index))"
    "source new = (case u_source u of Some v \<Rightarrow> v | None \<Rightarrow> source (jobs w ! index))"
    "updated_at new = Date_toISOString e"
    by (simp_all add: new_def spread_def override_def)
  have g: "length (getAllJobs (snd (updateJob e i u w))) = length (getAllJobs w)"
    "\<forall>k. k \<noteq> index \<longrightarrow> getAllJobs (snd (updateJob e i u w)) ! k = getAllJobs w ! k"
    by (simp_all add: r getAllJobs_def)
  have m: "updated_at (jobs w ! index) \<le> Date_toISOString e \<longrightarrow>
      updated_at (jobs w ! index) \<le> updated_at new"
    by (simp add: f3(6))
  show "\<exists>index new.
        index < length (jobs w) \<and> job_id (jobs w ! index) = i \<and>
        (\<forall>k<index. job_id (jobs w ! k) \<noteq> i) \<and>
        updateJob e i u w =
          (Some new,
           w\<lparr>jobs := (jobs w)[index := new],
             localStorage := (localStorage w)(STORAGE_KEY \<mapsto> JobsJSON ((jobs w)[index := new]))\<rparr>) \<and>
        job_id new = (case u_id u of Some v \<Rightarrow> v | None \<Rightarrow> job_id (jobs w ! index)) \<and>
        title new = (case u_title u of Some v \<Rightarrow> v | None \<Rightarrow> title (jobs w ! index)) \<and>
        company new = (case u_company u of Some v \<Rightarrow> v | None \<Rightarrow> company (jobs w ! index)) \<and>
        location new = (case u_location u of Some v \<Rightarrow> v | None \<Rightarrow> location (jobs w ! index)) \<and>
        type new = (case u_type u of Some v \<Rightarrow> v | None \<Rightarrow> type (jobs w ! index)) \<and>
        experience new =
          (case u_experience u of Some v \<Rightarrow> v | None \<Rightarrow> experience (jobs w ! index)) \<and>
        salary new = (case u_salary u of Some v \<Rightarrow> v | None \<Rightarrow> salary (jobs w ! index)) \<and>
        description new =
          (case u_description u of Some v \<Rightarrow> v | None \<Rightarrow> description (jobs w ! index)) \<and>
        requirements new =
          (case u_requirements u of Some v \<Rightarrow> v | None \<Rightarrow> requirements (jobs w ! index)) \<and>
        posted new = (case u_posted u of Some v \<Rightarrow> v | None \<Rightarrow> posted (jobs w ! index)) \<and>
        url new = (case u_url u of Some v \<Rightarrow> v | None \<Rightarrow> url (jobs w ! index)) \<and>
        logo new = (case u_logo u of Some v \<Rightarrow> v | None \<Rightarrow> logo (jobs w ! index)) \<and>
        remote new = (case u_remote u of Some v \<Rightarrow> v | None \<Rightarrow> remote (jobs w ! index)) \<and>
        skills new = (case u_skills u of Some v \<Rightarrow> v | None \<Rightarrow> skills (jobs w ! index)) \<and>
        application_link new =
          (case u_application_link u of Some v \<Rightarrow> v
           | None \<Rightarrow> application_link (jobs w ! index)) \<and>
        created_at new =
          (case u_created_at u of Some v \<Rightarrow> v | None \<Rightarrow> created_at (jobs w ! index)) \<and>
        source new = (case u_source u of Some v \<Rightarrow> v | None \<Rightarrow> source (jobs w ! index)) \<and>
        updated_at new = Date_toISOString e \<and>
        (updated_at (jobs w ! index) \<le> Date_toISOString e \<longrightarrow>
           updated_at (jobs w ! index) \<le> updated_at new) \<and>
        length (getAllJobs (snd (updateJob e i u w))) = length (getAllJobs w) \<and>
        (\<forall>k. k \<noteq> index \<longrightarrow>
           getAllJobs (snd (updateJob e i u w)) ! k = getAllJobs w ! k)"
    apply (rule exI [of _ index])
    apply (rule exI [of _ new])
    apply (intro conjI)
    apply (rule a r f1 f2 f3 m g)+
    done
qed



theorem updateJob_frame_witness:
  "''api_1'' \<in> set (map job_id (jobs dup_world)) \<and>
   ''job_9'' \<notin> set (map job_id (jobs dup_world)) \<and>
   updated_at sample_api_job \<le> Date_toISOString sample_env \<and>
   updateJob sample_env ''job_9'' retitle dup_world = (None, dup_world) \<and>
   fst (updateJob sample_env ''api_1'' retitle dup_world) = Some retitled \<and>
   getAllJobs (snd (updateJob sample_env ''api_1'' retitle dup_world)) =
     [sample_job, retitled, second_copy] \<and>
   updated_at sample_api_job \<le> updated_at retitled"
proof -
  have p: "''api_1'' \<in> set (map job_id (jobs dup_world))"
    and q: "''job_9'' \<notin> set (map job_id (jobs dup_world))"
    and c: "updated_at sample_api_job \<le> Date_toISOString sample_env"
    by code_simp+
  note t = updateJob_frame [of "''job_9''" dup_world sample_env retitle]
  have n: "updateJob sample_env ''job_9'' retitle dup_world = (None, dup_world)"
    using t q by blast
  note s = updateJob_frame [of "''api_1''" dup_world sample_env retitle]
  from s p obtain index new where
    i: "index < length (jobs dup_world)" "job_id (jobs dup_world ! index) = ''api_1''"
      "\<forall>k<index. job_id (jobs dup_world ! k) \<noteq> ''api_1''"
    and r: "updateJob sample_env ''api_1'' retitle dup_world =
          (Some new,
           dup_world\<lparr>jobs := (jobs dup_world)[index := new],
             localStorage := (localStorage dup_world)(STORAGE_KEY \<mapsto>
               JobsJSON ((jobs dup_world)[index := new]))\<rparr>)"
    and f1: "job_id new = (case u_id retitle of Some v \<Rightarrow> v
               | None \<Rightarrow> job_id (jobs dup_world ! index))"
      "title new = (case u_title retitle of Some v \<Rightarrow> v
               | None \<Rightarrow> title (jobs dup_world ! index))"
      "company new = (case u_company retitle of Some v \<Rightarrow> v
               | None \<Rightarrow> company (jobs dup_world ! index))"
      "location new = (case u_location retitle of Some v \<Rightarrow> v
               | None \<Rightarrow> location (jobs dup_world ! index))"
      "type new = (case u_type retitle of Some v \<Rightarrow> v
               | None \<Rightarrow> type (jobs dup_world ! index))"
      "experience new = (case u_experience retitle of Some v \<Rightarrow> v
               | None \<Rightarrow> experience (jobs dup_world ! index))"
      "salary new = (case u_salary retitle of Some v \<Rightarrow> v
               | None \<Rightarrow> salary (jobs dup_world ! index))"
      "description new = (case u_description retitle of Some v \<Rightarrow> v
               | None \<Rightarrow> description (jobs dup_world ! index))"
      "requirements new = (case u_requirements retitle of Some v \<Rightarrow> v
               | None \<Rightarrow> requirements (jobs dup_world ! index))"
    and f2: "posted new = (case u_posted retitle of Some v \<Rightarrow> v
               | None \<Rightarrow> posted (jobs dup_world ! index))"
      "url new = (case u_url retitle of Some v \<Rightarrow> v
               | None \<Rightarrow> url (jobs dup_world ! index))"
      "logo new = (case u_logo retitle of Some v \<Rightarrow> v
               | None \<Rightarrow> logo (jobs dup_world ! index))"
      "remote new = (case u_remote retitle of Some v \<Rightarrow> v
               | None \<Rightarrow> remote (jobs dup_world ! index))"
      "skills new = (case u_skills retitle of Some v \<Rightarrow> v
               | None \<Rightarrow> skills (jobs dup_world ! index))"
      "application_link new = (case u_application_link retitle of Some v \<Rightarrow> v
               | None \<Rightarrow> application_link (jobs dup_world ! index))"
      "created_at new = (case u_created_at retitle of Some v \<Rightarrow> v
               | None \<Rightarrow> created_at (jobs dup_world ! index))"
      "source new = (case u_source retitle of Some v \<Rightarrow> v
               | None \<Rightarrow> source (jobs dup_world ! index))"
      "updated_at new = Date_toISOString sample_env"
    and m: "updated_at (jobs dup_world ! index) \<le> Date_toISOString sample_env \<longrightarrow>
        updated_at (jobs dup_world ! index) \<le> updated_at new"
    by blast
  have j: "jobs dup_world = [sample_job, sample_api_job, second_copy]"
    by (simp add: dup_world_def)
  have ids: "job_id sample_job = ''job_1''" "job_id sample_api_job = ''api_1''"
    by code_simp+
  have "index = 0 \<or> index = 1 \<or> index = 2"
    using i(1) unfolding j by auto
  then have z: "index = 1"
  proof (elim disjE)
    assume "index = 0"
    with i(2) ids(1) show ?thesis by (simp add: j)
  next
    assume "index = 1"
    then show ?thesis .
  next
    assume "index = 2"
    with i(3) have "job_id (jobs dup_world ! 1) \<noteq> ''api_1''" by simp
    with ids(2) show ?thesis by (simp add: j)
  qed
  have o: "jobs dup_world ! 1 = sample_api_job"
    by (simp add: j)
  have e: "new = retitled"
    using f1 f2 unfolding z o
    by (intro Job.equality)
      (simp_all add: retitle_def no_updates_def retitled_def sample_env_def)
  have u: "updated_at sample_api_job \<le> updated_at retitled"
    using m c unfolding z o e by simp
  have g: "getAllJobs (snd (updateJob sample_env ''api_1'' retitle dup_world)) =
      [sample_job, retitled, second_copy]"
    unfolding r z e by (simp add: getAllJobs_def j)
  have h: "fst (updateJob sample_env ''api_1'' retitle dup_world) = Some retitled"
    unfolding r e by simp
  show ?thesis
    using p q c n h g u by (intro conjI)
qed


text \<open>
  The claim as it was stated fails: an update that names \<open>source\<close> and \<open>created_at\<close>
  changes both, and an update made while the clock stands before the stored
  \<open>updated_at\<close> decreases it.
\<close>

theorem update_can_change_provenance:
  "''job_1'' \<in> set (map job_id (jobs sample_world)) \<and>
   source (the (fst (updateJob sample_env ''job_1'' relabel sample_world))) \<noteq> source sample_job \<and>
   created_at (the (fst (updateJob sample_env ''job_1'' relabel sample_world))) \<noteq>
     created_at sample_job \<and>
   updated_at (the (fst (updateJob earlier_env ''job_1'' no_updates sample_world))) <
     updated_at sample_job"
  by code_simp

text \<open>
  C10. \<open>updateJob\<close> copies every key of its argument onto the stored record, \<open>id\<close>,
  \<open>created_at\<close> and \<open>source\<close> included, and then stamps \<open>updated_at\<close> with the clock
  whatever the argument says. So the id, \<open>created_at\<close> and \<open>source\<close> of the record are
  as before exactly when the argument omits the key or repeats the stored value.
\<close>

theorem updateJob_copies_every_key:
  assumes "i \<in> set (map job_id (jobs w))"
  shows "\<exists>index new.
     index < length (jobs w) \<and> job_id (jobs w ! index) = i \<and>
     fst (updateJob e i u w) = Some new \<and>
     getAllJobs (snd (updateJob e i u w)) = (getAllJobs w)[index := new] \<and>
     (\<forall>v. u_id u = Some v \<longrightarrow> job_id new = v) \<and>
     (\<forall>v. u_title u = Some v \<longrightarrow> title new = v) \<and>
     (\<forall>v. u_company u = Some v \<longrightarrow> company new = v) \<and>
     (\<forall>v. u_location u = Some v \<longrightarrow> location new = v) \<and>
     (\<forall>v. u_type u = Some v \<longrightarrow> type new = v) \<and>
     (\<forall>v. u_experience u = Some v \<longrightarrow> experience new = v) \<and>
     (\<forall>v. u_salary u = Some v \<longrightarrow> salary new = v) \<and>
     (\<forall>v. u_description u = Some v \<longrightarrow> description new = v) \<and>
     (\<forall>v. u_requirements u = Some v \<longrightarrow> requirements new = v) \<and>
     (\<forall>v. u_posted u = Some v \<longrightarrow> posted new = v) \<and>
     (\<forall>v. u_url u = Some v \<longrightarrow> url new = v) \<and>
     (\<forall>v. u_logo u = Some v \<longrightarrow> logo new = v) \<and>
     (\<forall>v. u_remote u = Some v \<longrightarrow> remote new = v) \<and>
     (\<forall>v. u_skills u = Some v \<longrightarrow> skills new = v) \<and>
     (\<forall>v. u_application_link u = Some v \<longrightarrow> application_link new = v) \<and>
     (\<forall>v. u_created_at u = Some v \<longrightarrow> created_at new = v) \<and>
     (\<forall>v. u_source u = Some v \<longrightarrow> source new = v) \<and>
     updated_at new = Date_toISOString e \<and>
     (job_id new = job_id (jobs w ! index) \<longleftrightarrow>
        u_id u = None \<or> u_id u = Some (job_id (jobs w ! index))) \<and>
     (created_at new = created_at (jobs w ! index) \<longleftrightarrow>
        u_created_at u = None \<or> u_created_at u = Some (created_at (jobs w ! index))) \<and>
     (source new = source (jobs w ! index) \<longleftrightarrow>
        u_source u = None \<or> u_source u = Some (source (jobs w ! index)))"
proof -
  obtain index where fi: "findIndex (\<lambda>job. job_id job = i) (jobs w) = Some index"
    using findIndex_id_Some [OF assms] by blast
  define new where "new = (spread (jobs w ! index) u)\<lparr>updated_at := Date_toISOString e\<rparr>"
  note r = updateJob_present [OF fi, of e u, folded new_def]
  have a: "index < length (jobs w)" "job_id (jobs w ! index) = i"
    using findIndex_Some [OF fi] by simp_all
  have b: "fst (updateJob e i u w) = Some new"
    "getAllJobs (snd (updateJob e i u w)) = (getAllJobs w)[index := new]"
    by (simp_all add: r getAllJobs_def)
  have k1: "\<forall>v. u_id u = Some v \<longrightarrow> job_id new = v"
    "\<forall>v. u_title u = Some v \<longrightarrow> title new = v"
    "\<forall>v. u_company u = Some v \<longrightarrow> company new = v"
    "\<forall>v. u_location u = Some v \<longrightarrow> location new = v"
    "\<forall>v. u_type u = Some v \<longrightarrow> type new = v"
    "\<forall>v. u_experience u = Some v \<longrightarrow> experience new = v"
    by (simp_all add: new_def spread_def override_def)
  have k2: "\<forall>v. u_salary u = Some v \<longrightarrow> salary new = v"
    "\<forall>v. u_description u = Some v \<longrightarrow> description new = v"
    "\<forall>v. u_requirements u = Some v \<longrightarrow> requirements new = v"
    "\<forall>v. u_posted u = Some v \<longrightarrow> posted new = v"
    "\<forall>v. u_url u = Some v \<longrightarrow> url new = v"
    "\<forall>v. u_logo u = Some v \<longrightarrow> logo new = v"
    by (simp_all add: new_def spread_def override_def)
  have k3: "\<forall>v. u_remote u = Some v \<longrightarrow> remote new = v"
    "\<forall>v. u_skills u = Some v \<longrightarrow> skills new = v"
    "\<forall>v. u_application_link u = Some v \<longrightarrow> application_link new = v"
    "\<forall>v. u_created_at u = Some v \<longrightarrow> created_at new = v"
    "\<forall>v. u_source u = Some v \<longrightarrow> source new = v"
    "updated_at new = Date_toISOString e"
    by (simp_all add: new_def spread_def override_def)
  have k4: "job_id new = job_id (jobs w ! index) \<longleftrightarrow>
        u_id u = None \<or> u_id u = Some (job_id (jobs w ! index))"
    "created_at new = created_at (jobs w ! index) \<longleftrightarrow>
        u_created_at u = None \<or> u_created_at u = Some (created_at (jobs w ! index))"
    "source new = source (jobs w ! index) \<longleftrightarrow>
        u_source u = None \<or> u_source u = Some (source (jobs w ! index))"
    by (auto simp: new_def spread_def override_def split: option.splits)
  show ?thesis
    apply (rule exI [of _ index])
    apply (rule exI [of _ new])
    apply (intro conjI)
    apply (rule a b k1 k2 k3 k4)+
    done
qed

theorem updateJob_copies_every_key_witness:
  "''job_1'' \<in> set (map job_id (jobs sample_world)) \<and>
   fst (updateJob sample_env ''job_1'' overwrite sample_world) = Some overwritten \<and>
   source overwritten \<noteq> source sample_job \<and>
   job_id overwritten = job_id sample_api_job"
proof -
  have p: "''job_1'' \<in> set (map job_id (jobs sample_world))"
    by code_simp
  from updateJob_copies_every_key [OF p, of sample_env overwrite] obtain new where
    r: "fst (updateJob sample_env ''job_1'' overwrite sample_world) = Some new"
    and k1: "\<forall>v. u_id overwrite = Some v \<longrightarrow> job_id new = v"
      "\<forall>v. u_title overwrite = Some v \<longrightarrow> title new = v"
      "\<forall>v. u_company overwrite = Some v \<longrightarrow> company new = v"
      "\<forall>v. u_location overwrite = Some v \<longrightarrow> location new = v"
      "\<forall>v. u_type overwrite = Some v \<longrightarrow> type new = v"
      "\<forall>v. u_experience overwrite = Some v \<longrightarrow> experience new = v"
      "\<forall>v. u_salary overwrite = Some v \<longrightarrow> salary new = v"
      "\<forall>v. u_description overwrite = Some v \<longrightarrow> description new = v"
      "\<forall>v. u_requirements overwrite = Some v \<longrightarrow> requirements new = v"
    and k2: "\<forall>v. u_posted overwrite = Some v \<longrightarrow> posted new = v"
      "\<forall>v. u_url overwrite = Some v \<longrightarrow> url new = v"
      "\<forall>v. u_logo overwrite = Some v \<longrightarrow> logo new = v"
      "\<forall>v. u_remote overwrite = Some v \<longrightarrow> remote new = v"
      "\<forall>v. u_skills overwrite = Some v \<longrightarrow> skills new = v"
      "\<forall>v. u_application_link overwrite = Some v \<longrightarrow> application_link new = v"
      "\<forall>v. u_created_at overwrite = Some v \<longrightarrow> created_at new = v"
      "\<forall>v. u_source overwrite = Some v \<longrightarrow> source new = v"
      "updated_at new = Date_toISOString sample_env"
    by blast
  have "new = overwritten"
    using k1 k2 by (intro Job.equality) (auto simp: overwrite_def overwritten_def sample_env_def)
  moreover have "source overwritten \<noteq> source sample_job"
    "job_id overwritten = job_id sample_api_job"
    by code_simp+
  ultimately show ?thesis
    using r p by simp
qed

text \<open>An update that names the id of another record leaves two records with one id.\<close>

lemma update_can_duplicate_id:
  "distinct (map job_id (getAllJobs sample_world)) \<and>
   \<not> distinct (map job_id
      (getAllJobs (snd (updateJob sample_env ''job_1'' reidentify sample_world))))"
  by code_simp

end
